theory Spec2Isabelle
  imports Complex_Main "HOL-Library.Word"
begin

section \<open>Simulation objects of voxblox: sphere, cube and plane\<close>

text \<open>
  A shallow embedding of \<^verbatim>\<open>voxblox/simulation/objects.h\<close>: the base class
  \<^verbatim>\<open>Object\<close> and its subclasses \<^verbatim>\<open>Sphere\<close>, \<^verbatim>\<open>Cube\<close> and \<^verbatim>\<open>Plane\<close>, each
  with the two virtual queries \<^verbatim>\<open>getDistanceToPoint\<close> and \<^verbatim>\<open>getRayIntersection\<close>.

  \<^verbatim>\<open>FloatingPoint\<close> is read as the real numbers: every formula is the exact one, and
  rounding, overflow, infinities and NaN are outside the model. The only division whose
  divisor is not guarded by the code is the one by \<^verbatim>\<open>normal_.norm()\<close> in
  \<^verbatim>\<open>Plane::getDistanceToPoint\<close>; statements about it assume a normal of unit length,
  where the divisor is 1.

  A C++ member \<^verbatim>\<open>name_\<close> is the record field \<open>name\<close> (an identifier cannot end in an
  underscore); \<^verbatim>\<open>size_\<close> is \<open>size_cube\<close>, since \<open>size\<close> is a constant of HOL.
\<close>

subsection \<open>Points\<close>

type_synonym FloatingPoint = real

text \<open>
  \<^verbatim>\<open>Point\<close> is a vector of three \<^verbatim>\<open>FloatingPoint\<close> coefficients; \<open>px\<close>, \<open>py\<close>, \<open>pz\<close>
  are its accessors \<^verbatim>\<open>x()\<close>, \<^verbatim>\<open>y()\<close>, \<^verbatim>\<open>z()\<close>. The operations below are the
  ones of the vector library that the file uses.
\<close>

record Point =
  px :: FloatingPoint
  py :: FloatingPoint
  pz :: FloatingPoint

definition Point_Zero :: Point where
  "Point_Zero = \<lparr>px = 0, py = 0, pz = 0\<rparr>"

definition Point_add :: "Point \<Rightarrow> Point \<Rightarrow> Point" where
  "Point_add u v = \<lparr>px = px u + px v, py = py u + py v, pz = pz u + pz v\<rparr>"

definition Point_sub :: "Point \<Rightarrow> Point \<Rightarrow> Point" where
  "Point_sub u v = \<lparr>px = px u - px v, py = py u - py v, pz = pz u - pz v\<rparr>"

definition Point_scale :: "FloatingPoint \<Rightarrow> Point \<Rightarrow> Point" where
  "Point_scale k v = \<lparr>px = k * px v, py = k * py v, pz = k * pz v\<rparr>"

definition dot :: "Point \<Rightarrow> Point \<Rightarrow> FloatingPoint" where
  "dot u v = px u * px v + py u * py v + pz u * pz v"

definition squaredNorm :: "Point \<Rightarrow> FloatingPoint" where
  "squaredNorm v = px v * px v + py v * py v + pz v * pz v"

definition norm_pt :: "Point \<Rightarrow> FloatingPoint" where
  "norm_pt v = sqrt (squaredNorm v)"

definition maxCoeff :: "Point \<Rightarrow> FloatingPoint" where
  "maxCoeff v = max (max (px v) (py v)) (pz v)"

subsection \<open>The base class\<close>

datatype Type = kSphere | kCube | kPlane

text \<open>
  Modelled from the spec: \<^verbatim>\<open>Color\<close> and \<^verbatim>\<open>Color::White()\<close> are declared in
  \<^verbatim>\<open>voxblox/core/common.h\<close>, which is not among the sources. A colour is an RGB(A)
  value, pure data; no query computes with its channels.
\<close>

datatype Color = Color (red: "8 word") (green: "8 word") (blue: "8 word") (alpha: "8 word")

definition White :: Color where
  "White = Color 255 255 255 255"

record Object =
  center :: Point
  type :: Type
  color :: Color

record Sphere = Object +
  radius :: FloatingPoint

record Cube = Object +
  size_cube :: Point

record Plane = Object +
  normal :: Point

text \<open>The constructors; the one without a colour delegates with \<^verbatim>\<open>Color::White()\<close>.\<close>

definition Object_new_color :: "Point \<Rightarrow> Type \<Rightarrow> Color \<Rightarrow> Object" where
  "Object_new_color c t col = \<lparr>center = c, type = t, color = col\<rparr>"

definition Object_new :: "Point \<Rightarrow> Type \<Rightarrow> Object" where
  "Object_new c t = Object_new_color c t White"

definition Sphere_new_color :: "Point \<Rightarrow> FloatingPoint \<Rightarrow> Color \<Rightarrow> Sphere" where
  "Sphere_new_color c r col = \<lparr>center = c, type = kSphere, color = col, radius = r\<rparr>"

definition Sphere_new :: "Point \<Rightarrow> FloatingPoint \<Rightarrow> Sphere" where
  "Sphere_new c r = \<lparr>center = c, type = kSphere, color = White, radius = r\<rparr>"

definition Cube_new_color :: "Point \<Rightarrow> Point \<Rightarrow> Color \<Rightarrow> Cube" where
  "Cube_new_color c s col = \<lparr>center = c, type = kCube, color = col, size_cube = s\<rparr>"

definition Cube_new :: "Point \<Rightarrow> Point \<Rightarrow> Cube" where
  "Cube_new c s = \<lparr>center = c, type = kCube, color = White, size_cube = s\<rparr>"

definition Plane_new_color :: "Point \<Rightarrow> Point \<Rightarrow> Color \<Rightarrow> Plane" where
  "Plane_new_color c n col = \<lparr>center = c, type = kPlane, color = col, normal = n\<rparr>"

definition Plane_new :: "Point \<Rightarrow> Point \<Rightarrow> Plane" where
  "Plane_new c n = \<lparr>center = c, type = kPlane, color = White, normal = n\<rparr>"

subsection \<open>What a ray query can touch\<close>

text \<open>
  \<^verbatim>\<open>getRayIntersection\<close> returns a \<^verbatim>\<open>bool\<close> and writes through its two output
  pointers; \<^verbatim>\<open>Plane::getRayIntersection\<close> also streams to \<^verbatim>\<open>std::cout\<close>. The record
  \<open>Mem\<close> holds what a call can change: the two locations the pointers refer to (taken
  to be valid and distinct from each other and from the arguments) and the items
  streamed to standard output so far. A query takes the memory before the call and
  returns the \<^verbatim>\<open>bool\<close> with the memory after it. The object itself is \<^verbatim>\<open>const\<close> in
  every query and is not returned.
\<close>

datatype Output = Str string | Num FloatingPoint | Endl

record Mem =
  intersect_point :: Point
  intersect_dist :: FloatingPoint
  cout :: "Output list"

subsection \<open>Object\<close>

definition Object_getDistanceToPoint :: "'a Object_scheme \<Rightarrow> Point \<Rightarrow> FloatingPoint" where
  "Object_getDistanceToPoint this point = 0"

definition getColor :: "'a Object_scheme \<Rightarrow> Color" where
  "getColor this = color this"

definition Object_getRayIntersection ::
  "'a Object_scheme \<Rightarrow> Point \<Rightarrow> Point \<Rightarrow> FloatingPoint \<Rightarrow> Mem \<Rightarrow> bool \<times> Mem" where
  "Object_getRayIntersection this ray_origin ray_direction max_dist mem = (False, mem)"

subsection \<open>Sphere\<close>

definition Sphere_getDistanceToPoint :: "Sphere \<Rightarrow> Point \<Rightarrow> FloatingPoint" where
  "Sphere_getDistanceToPoint this point =
     (let distance = norm_pt (Point_sub (center this) point) - radius this
      in distance)"

definition Sphere_getRayIntersection ::
  "Sphere \<Rightarrow> Point \<Rightarrow> Point \<Rightarrow> FloatingPoint \<Rightarrow> Mem \<Rightarrow> bool \<times> Mem" where
  "Sphere_getRayIntersection this ray_origin ray_direction max_dist mem =
     (let under_square_root =
            (dot ray_direction (Point_sub ray_origin (center this))) ^ 2
            - squaredNorm (Point_sub ray_origin (center this)) + (radius this) ^ 2
      in if under_square_root < 0 then (False, mem)
         else
           let d = - (dot ray_direction (Point_sub ray_origin (center this)))
                   - sqrt under_square_root
           in if d < 0 then (False, mem)
              else if d > max_dist then (False, mem)
              else (True, mem\<lparr>intersect_point := Point_add ray_origin (Point_scale d ray_direction),
                               intersect_dist := d\<rparr>))"

subsection \<open>Cube\<close>

text \<open>
  \<^verbatim>\<open>Cube\<close> overrides \<^verbatim>\<open>getDistanceToPoint\<close> only. The local \<^verbatim>\<open>distance_vector\<close> is
  assigned coefficient by coefficient, first with the clamped terms and, when the norm
  is below \<^verbatim>\<open>1e-6\<close>, again with the unclamped ones.
\<close>

definition Cube_getDistanceToPoint :: "Cube \<Rightarrow> Point \<Rightarrow> FloatingPoint" where
  "Cube_getDistanceToPoint this point =
     (let c = center this; s = size_cube this;
          distance_vector = Point_Zero;
          distance_vector = distance_vector\<lparr>px :=
            max (max (px c - px s - px point) 0) (px point - px c - px s)\<rparr>;
          distance_vector = distance_vector\<lparr>py :=
            max (max (py c - py s - py point) 0) (py point - py c - py s)\<rparr>;
          distance_vector = distance_vector\<lparr>pz :=
            max (max (pz c - pz s - pz point) 0) (pz point - pz c - pz s)\<rparr>;
          distance = norm_pt distance_vector
      in if distance < 0.000001 then
           (let distance_vector = distance_vector\<lparr>px :=
                  max (px c - px s - px point) (px point - px c - px s)\<rparr>;
                distance_vector = distance_vector\<lparr>py :=
                  max (py c - py s - py point) (py point - py c - py s)\<rparr>;
                distance_vector = distance_vector\<lparr>pz :=
                  max (pz c - pz s - pz point) (pz point - pz c - pz s)\<rparr>
            in maxCoeff distance_vector)
         else distance)"

subsection \<open>Plane\<close>

definition Plane_getDistanceToPoint :: "Plane \<Rightarrow> Point \<Rightarrow> FloatingPoint" where
  "Plane_getDistanceToPoint this point =
     (let d = - dot (normal this) (center this);
          p = d / norm_pt (normal this);
          distance = dot (normal this) point + p
      in distance)"

definition Plane_getRayIntersection ::
  "Plane \<Rightarrow> Point \<Rightarrow> Point \<Rightarrow> FloatingPoint \<Rightarrow> Mem \<Rightarrow> bool \<times> Mem" where
  "Plane_getRayIntersection this ray_origin ray_direction max_dist mem =
     (let denominator = dot ray_direction (normal this)
      in if \<bar>denominator\<bar> < 0.000001 then (False, mem)
         else
           let d = dot (Point_sub (center this) ray_origin) (normal this) / denominator;
               mem = mem\<lparr>cout := cout mem @ [Str ''d: '', Num d, Endl]\<rparr>
           in if d < 0 then (False, mem)
              else if d > max_dist then (False, mem)
              else (True, mem\<lparr>intersect_point := Point_add ray_origin (Point_scale d ray_direction),
                               intersect_dist := d\<rparr>))"

subsection \<open>Virtual dispatch\<close>

text \<open>
  A caller holds objects through the base class. \<open>AnyObject\<close> is an object together
  with its dynamic class; the two dispatch functions call the override of that class.
  \<^verbatim>\<open>Cube\<close> has no \<^verbatim>\<open>getRayIntersection\<close> of its own and runs the one of \<^verbatim>\<open>Object\<close>.
\<close>

datatype AnyObject = IsObject Object | IsSphere Sphere | IsCube Cube | IsPlane Plane

fun getDistanceToPoint :: "AnyObject \<Rightarrow> Point \<Rightarrow> FloatingPoint" where
  "getDistanceToPoint (IsObject b) point = Object_getDistanceToPoint b point"
| "getDistanceToPoint (IsSphere s) point = Sphere_getDistanceToPoint s point"
| "getDistanceToPoint (IsCube c) point = Cube_getDistanceToPoint c point"
| "getDistanceToPoint (IsPlane p) point = Plane_getDistanceToPoint p point"

fun getRayIntersection ::
  "AnyObject \<Rightarrow> Point \<Rightarrow> Point \<Rightarrow> FloatingPoint \<Rightarrow> Mem \<Rightarrow> bool \<times> Mem" where
  "getRayIntersection (IsObject b) ray_origin ray_direction max_dist mem =
     Object_getRayIntersection b ray_origin ray_direction max_dist mem"
| "getRayIntersection (IsSphere s) ray_origin ray_direction max_dist mem =
     Sphere_getRayIntersection s ray_origin ray_direction max_dist mem"
| "getRayIntersection (IsCube c) ray_origin ray_direction max_dist mem =
     Object_getRayIntersection c ray_origin ray_direction max_dist mem"
| "getRayIntersection (IsPlane p) ray_origin ray_direction max_dist mem =
     Plane_getRayIntersection p ray_origin ray_direction max_dist mem"

subsection \<open>The interface of the specification\<close>

text \<open>
  The specification describes the ray query as a function to an optional pair of the
  intersection point and its distance. \<open>intersectRay_result\<close> reads that pair off
  what a call returned: the \<^verbatim>\<open>bool\<close> says whether there is one, and the two output
  locations hold it.
\<close>

definition intersectRay_result :: "bool \<times> Mem \<Rightarrow> (Point \<times> FloatingPoint) option" where
  "intersectRay_result r =
     (if fst r then Some (intersect_point (snd r), intersect_dist (snd r)) else None)"

text \<open>
  The sphere's ray query in the words of the specification: with
  \<open>b = direction \<cdot> (origin - center)\<close> and \<open>c = |origin - center|\<^sup>2 - radius\<^sup>2\<close> the
  discriminant is \<open>b\<^sup>2 - c\<close>; the near root is \<open>- b - sqrt discriminant\<close>, the far one
  \<open>- b + sqrt discriminant\<close>.
\<close>

definition spec_Sphere_discriminant ::
  "Point \<Rightarrow> FloatingPoint \<Rightarrow> Point \<Rightarrow> Point \<Rightarrow> FloatingPoint" where
  "spec_Sphere_discriminant c r origin direction =
     (let b = dot direction (Point_sub origin c);
          c' = (norm_pt (Point_sub origin c)) ^ 2 - r ^ 2
      in b ^ 2 - c')"

definition spec_Sphere_far_root ::
  "Point \<Rightarrow> FloatingPoint \<Rightarrow> Point \<Rightarrow> Point \<Rightarrow> FloatingPoint" where
  "spec_Sphere_far_root c r origin direction =
     - dot direction (Point_sub origin c) + sqrt (spec_Sphere_discriminant c r origin direction)"

definition spec_Sphere_intersectRay ::
  "Point \<Rightarrow> FloatingPoint \<Rightarrow> Point \<Rightarrow> Point \<Rightarrow> FloatingPoint
     \<Rightarrow> (Point \<times> FloatingPoint) option" where
  "spec_Sphere_intersectRay c r origin direction maxDistance =
     (let b = dot direction (Point_sub origin c);
          discriminant = spec_Sphere_discriminant c r origin direction
      in if discriminant < 0 then None
         else
           let d = - b - sqrt discriminant
           in if d < 0 \<or> d > maxDistance then None
              else Some (Point_add origin (Point_scale d direction), d))"

text \<open>The plane's ray query in the words of the specification.\<close>

definition spec_Plane_intersectRay ::
  "Point \<Rightarrow> Point \<Rightarrow> Point \<Rightarrow> Point \<Rightarrow> FloatingPoint
     \<Rightarrow> (Point \<times> FloatingPoint) option" where
  "spec_Plane_intersectRay c n origin direction maxDistance =
     (let denominator = dot direction n
      in if \<bar>denominator\<bar> < 0.000001 then None
         else
           let d = dot (Point_sub c origin) n / denominator
           in if d < 0 \<or> d > maxDistance then None
              else Some (Point_add origin (Point_scale d direction), d))"

text \<open>
  The cuboid's distance in the words of the specification: per axis the clamped term
  \<open>max (max (center\<^sub>i - halfExtent\<^sub>i - point\<^sub>i) 0) (point\<^sub>i - center\<^sub>i - halfExtent\<^sub>i)\<close>,
  the norm of the three; below \<open>1e-6\<close> the maximum of the three unclamped terms.
  \<open>Cuboid_contains\<close> says that a point is inside the box or on its surface.
\<close>

definition clamped_term :: "FloatingPoint \<Rightarrow> FloatingPoint \<Rightarrow> FloatingPoint \<Rightarrow> FloatingPoint" where
  "clamped_term c h p = max (max (c - h - p) 0) (p - c - h)"

definition unclamped_term :: "FloatingPoint \<Rightarrow> FloatingPoint \<Rightarrow> FloatingPoint \<Rightarrow> FloatingPoint" where
  "unclamped_term c h p = max (c - h - p) (p - c - h)"

definition spec_Cuboid_clamped :: "Point \<Rightarrow> Point \<Rightarrow> Point \<Rightarrow> Point" where
  "spec_Cuboid_clamped c h p =
     \<lparr>px = clamped_term (px c) (px h) (px p),
      py = clamped_term (py c) (py h) (py p),
      pz = clamped_term (pz c) (pz h) (pz p)\<rparr>"

definition spec_Cuboid_fallback :: "Point \<Rightarrow> Point \<Rightarrow> Point \<Rightarrow> FloatingPoint" where
  "spec_Cuboid_fallback c h p =
     Max {unclamped_term (px c) (px h) (px p),
          unclamped_term (py c) (py h) (py p),
          unclamped_term (pz c) (pz h) (pz p)}"

definition spec_Cuboid_distanceTo :: "Point \<Rightarrow> Point \<Rightarrow> Point \<Rightarrow> FloatingPoint" where
  "spec_Cuboid_distanceTo c h p =
     (if norm_pt (spec_Cuboid_clamped c h p) < 0.000001 then spec_Cuboid_fallback c h p
      else norm_pt (spec_Cuboid_clamped c h p))"

definition Cuboid_contains :: "Point \<Rightarrow> Point \<Rightarrow> Point \<Rightarrow> bool" where
  "Cuboid_contains c h p \<longleftrightarrow>
     \<bar>px p - px c\<bar> \<le> px h \<and> \<bar>py p - py c\<bar> \<le> py h \<and> \<bar>pz p - pz c\<bar> \<le> pz h"

subsection \<open>Concrete inputs\<close>

text \<open>
  \<open>Point_xyz\<close> builds a point from its three coefficients. \<open>mem_init\<close> is a caller's
  memory before a query: nothing printed yet, and the two output locations holding
  values that no query below computes, so that a write to them shows.
\<close>

definition Point_xyz :: "FloatingPoint \<Rightarrow> FloatingPoint \<Rightarrow> FloatingPoint \<Rightarrow> Point" where
  "Point_xyz a b c = \<lparr>px = a, py = b, pz = c\<rparr>"

definition mem_init :: Mem where
  "mem_init = \<lparr>intersect_point = Point_xyz 7 7 7, intersect_dist = - 1, cout = []\<rparr>"

section \<open>Properties\<close>

subsection \<open>Vector facts\<close>

lemmas pt_defs = Point_Zero_def Point_xyz_def Point_add_def Point_sub_def Point_scale_def
  dot_def squaredNorm_def norm_pt_def maxCoeff_def

lemma squaredNorm_nonneg: "0 \<le> squaredNorm v"
  by (simp add: squaredNorm_def)

lemma norm_pt_nonneg: "0 \<le> norm_pt v"
  by (simp add: norm_pt_def squaredNorm_nonneg)

lemma norm_pt_squared: "(norm_pt v) ^ 2 = squaredNorm v"
  by (simp add: norm_pt_def squaredNorm_nonneg)

lemma norm_pt_sub_commute: "norm_pt (Point_sub u v) = norm_pt (Point_sub v u)"
proof -
  have "squaredNorm (Point_sub u v) = squaredNorm (Point_sub v u)"
    by (simp add: squaredNorm_def Point_sub_def algebra_simps)
  then show ?thesis by (simp add: norm_pt_def)
qed

subsection \<open>The ray queries against the specification's formulas\<close>

lemma Sphere_under_square_root:
  "(dot direction (Point_sub origin (center s))) ^ 2
     - squaredNorm (Point_sub origin (center s)) + (radius s) ^ 2
   = spec_Sphere_discriminant (center s) (radius s) origin direction"
  by (simp add: spec_Sphere_discriminant_def Let_def norm_pt_squared)

lemma Sphere_refines:
  "intersectRay_result (Sphere_getRayIntersection s origin direction maxDistance mem)
     = spec_Sphere_intersectRay (center s) (radius s) origin direction maxDistance"
  unfolding Sphere_getRayIntersection_def Sphere_under_square_root
  by (simp add: spec_Sphere_intersectRay_def intersectRay_result_def Let_def)

lemma Sphere_near_le_far:
  assumes "spec_Sphere_intersectRay c r origin direction maxDistance = Some (p, t)"
  shows "t \<le> spec_Sphere_far_root c r origin direction"
proof -
  let ?D = "spec_Sphere_discriminant c r origin direction"
  from assms have D: "0 \<le> ?D" and t: "t = - dot direction (Point_sub origin c) - sqrt ?D"
    by (auto simp: spec_Sphere_intersectRay_def Let_def split: if_splits)
  from D have "0 \<le> sqrt ?D" by simp
  with t show ?thesis by (simp add: spec_Sphere_far_root_def)
qed

lemma Plane_refines:
  "intersectRay_result (Plane_getRayIntersection pl origin direction maxDistance mem)
     = spec_Plane_intersectRay (center pl) (normal pl) origin direction maxDistance"
  by (simp add: Plane_getRayIntersection_def spec_Plane_intersectRay_def
      intersectRay_result_def Let_def)

lemma Sphere_hit_range:
  "fst (Sphere_getRayIntersection s ray_origin ray_direction max_dist mem) \<Longrightarrow>
     0 \<le> intersect_dist (snd (Sphere_getRayIntersection s ray_origin ray_direction max_dist mem)) \<and>
     intersect_dist (snd (Sphere_getRayIntersection s ray_origin ray_direction max_dist mem))
       \<le> max_dist"
  by (simp add: Sphere_getRayIntersection_def Let_def split: if_splits)

lemma Plane_hit_range:
  "fst (Plane_getRayIntersection pl ray_origin ray_direction max_dist mem) \<Longrightarrow>
     0 \<le> intersect_dist (snd (Plane_getRayIntersection pl ray_origin ray_direction max_dist mem)) \<and>
     intersect_dist (snd (Plane_getRayIntersection pl ray_origin ray_direction max_dist mem))
       \<le> max_dist"
  by (simp add: Plane_getRayIntersection_def Let_def split: if_splits)

subsection \<open>What the ray queries leave alone\<close>

lemma Object_getRayIntersection_cout:
  "cout (snd (Object_getRayIntersection this ray_origin ray_direction max_dist mem)) = cout mem"
  by (simp add: Object_getRayIntersection_def)

lemma Sphere_getRayIntersection_cout:
  "cout (snd (Sphere_getRayIntersection s ray_origin ray_direction max_dist mem)) = cout mem"
  by (simp add: Sphere_getRayIntersection_def Let_def)

text \<open>
  The value a ray query returns and what it leaves in the two output locations do not
  depend on the memory it starts from: a second call with the same arguments, made after
  the first, answers the same.
\<close>

lemma getRayIntersection_repeat:
  "intersectRay_result
     (getRayIntersection obj ray_origin ray_direction max_dist
        (snd (getRayIntersection obj ray_origin ray_direction max_dist mem)))
   = intersectRay_result (getRayIntersection obj ray_origin ray_direction max_dist mem)"
  by (cases obj)
    (simp_all add: intersectRay_result_def Object_getRayIntersection_def
      Sphere_getRayIntersection_def Plane_getRayIntersection_def Let_def)

subsection \<open>The cuboid distance\<close>

lemma Cube_refines:
  "Cube_getDistanceToPoint cube p = spec_Cuboid_distanceTo (center cube) (size_cube cube) p"
  by (simp add: Cube_getDistanceToPoint_def spec_Cuboid_distanceTo_def spec_Cuboid_clamped_def
      spec_Cuboid_fallback_def clamped_term_def unclamped_term_def Point_Zero_def maxCoeff_def
      Let_def max.commute max.left_commute)

lemma unclamped_term_abs: "unclamped_term c h p = \<bar>p - c\<bar> - h"
  by (simp add: unclamped_term_def max_def abs_if)

lemma fallback_nonpos: "spec_Cuboid_fallback c h p \<le> 0 \<longleftrightarrow> Cuboid_contains c h p"
  by (simp add: spec_Cuboid_fallback_def Cuboid_contains_def unclamped_term_abs)

lemma fallback_pos: "0 < spec_Cuboid_fallback c h p \<longleftrightarrow> \<not> Cuboid_contains c h p"
  using fallback_nonpos [of c h p] by linarith

lemma clamped_term_zero: "clamped_term c h p = 0 \<longleftrightarrow> \<bar>p - c\<bar> \<le> h"
  by (auto simp: clamped_term_def max_def abs_if)

lemma norm_clamped_zero: "norm_pt (spec_Cuboid_clamped c h p) = 0 \<longleftrightarrow> Cuboid_contains c h p"
proof -
  have "squaredNorm (spec_Cuboid_clamped c h p) = 0 \<longleftrightarrow> Cuboid_contains c h p"
    by (simp add: squaredNorm_def spec_Cuboid_clamped_def Cuboid_contains_def
        clamped_term_zero add_nonneg_eq_0_iff)
  then show ?thesis by (simp add: norm_pt_def)
qed

text \<open>
  Both branches together give a distance that is non-positive exactly on the box and
  its inside.
\<close>

lemma Cube_getDistanceToPoint_sign:
  "Cube_getDistanceToPoint cube p \<le> 0 \<longleftrightarrow> Cuboid_contains (center cube) (size_cube cube) p"
proof (cases "Cuboid_contains (center cube) (size_cube cube) p")
  case True
  then have "norm_pt (spec_Cuboid_clamped (center cube) (size_cube cube) p) = 0"
    by (simp add: norm_clamped_zero)
  with True show ?thesis
    by (simp add: Cube_refines spec_Cuboid_distanceTo_def fallback_nonpos)
next
  case False
  then have "norm_pt (spec_Cuboid_clamped (center cube) (size_cube cube) p) \<noteq> 0"
    by (simp add: norm_clamped_zero)
  then have pos: "0 < norm_pt (spec_Cuboid_clamped (center cube) (size_cube cube) p)"
    using norm_pt_nonneg [of "spec_Cuboid_clamped (center cube) (size_cube cube) p"] by linarith
  from False have "0 < spec_Cuboid_fallback (center cube) (size_cube cube) p"
    by (simp add: fallback_pos)
  with pos False show ?thesis
    by (simp add: Cube_refines spec_Cuboid_distanceTo_def not_le)
qed

section \<open>The claims\<close>

subsection \<open>C1: the ray query on a cube\<close>

text \<open>
  Claim C1, as stated: the ray query on a cube reports an outcome that can be told from
  a genuine miss. It cannot: for the cube of half-extents 1 at the origin and the ray
  from \<open>(-5,0,0)\<close> along \<open>(1,0,0)\<close>, which runs through the cube, the call returns
  \<^verbatim>\<open>false\<close> and leaves the memory as it was, exactly as the sphere of radius 1 at
  \<open>(0,100,0)\<close> does, which that ray misses.
\<close>

theorem Cube_getRayIntersection_same_as_miss:
  "getRayIntersection (IsCube (Cube_new Point_Zero (Point_xyz 1 1 1)))
      (Point_xyz (- 5) 0 0) (Point_xyz 1 0 0) 10 mem_init = (False, mem_init)
   \<and> getRayIntersection (IsSphere (Sphere_new (Point_xyz 0 100 0) 1))
      (Point_xyz (- 5) 0 0) (Point_xyz 1 0 0) 10 mem_init = (False, mem_init)"
  by (simp add: Object_getRayIntersection_def Sphere_getRayIntersection_def Sphere_new_def
      pt_defs Let_def)

text \<open>
  Claim C1, amended: for every cube, ray origin, direction and maximum distance, the ray
  query is the one inherited from \<^verbatim>\<open>Object\<close>: it returns \<^verbatim>\<open>false\<close>, the answer of a
  miss, writes neither output location and prints nothing.
\<close>

theorem Cube_getRayIntersection_inherited:
  "getRayIntersection (IsCube c) ray_origin ray_direction max_dist mem = (False, mem)"
  by (simp add: Object_getRayIntersection_def)

subsection \<open>C2: the range of a reported distance\<close>

text \<open>
  Claim C2, as stated: no shape reports a hit when \<open>maxDistance \<le> 0\<close>, and a reported
  distance lies in \<open>(0, maxDistance]\<close>. With \<open>maxDistance = 0\<close> the unit sphere at the
  origin reports a hit at distance 0 for the ray that starts on its surface at
  \<open>(-1,0,0)\<close> and points along \<open>(1,0,0)\<close>.
\<close>

theorem getRayIntersection_hit_at_zero:
  "(0 :: FloatingPoint) \<le> 0
   \<and> getRayIntersection (IsSphere (Sphere_new Point_Zero 1))
        (Point_xyz (- 1) 0 0) (Point_xyz 1 0 0) 0 mem_init
      = (True, mem_init\<lparr>intersect_point := Point_xyz (- 1) 0 0, intersect_dist := 0\<rparr>)"
  by (simp add: Sphere_getRayIntersection_def Sphere_new_def pt_defs Let_def)

text \<open>
  Claim C2, amended: for every shape variant, ray origin and direction, the ray query
  returns no result whenever \<open>maxDistance < 0\<close>, and a hit is reported only with a
  distance in the closed interval \<open>[0, maxDistance]\<close>.
\<close>

theorem getRayIntersection_hit_range:
  "(max_dist < 0 \<longrightarrow> \<not> fst (getRayIntersection obj ray_origin ray_direction max_dist mem))
   \<and> (fst (getRayIntersection obj ray_origin ray_direction max_dist mem) \<longrightarrow>
        0 \<le> intersect_dist (snd (getRayIntersection obj ray_origin ray_direction max_dist mem))
        \<and> intersect_dist (snd (getRayIntersection obj ray_origin ray_direction max_dist mem))
            \<le> max_dist)"
proof -
  have hit: "0 \<le> intersect_dist (snd (getRayIntersection obj ray_origin ray_direction max_dist mem))
      \<and> intersect_dist (snd (getRayIntersection obj ray_origin ray_direction max_dist mem))
          \<le> max_dist"
    if "fst (getRayIntersection obj ray_origin ray_direction max_dist mem)"
    using that
    by (cases obj) (simp_all add: Object_getRayIntersection_def Sphere_hit_range Plane_hit_range)
  then show ?thesis by fastforce
qed

theorem getRayIntersection_hit_range_witness:
  "(- 1 :: FloatingPoint) < 0
   \<and> \<not> fst (getRayIntersection (IsSphere (Sphere_new Point_Zero 1))
          (Point_xyz (- 5) 0 0) (Point_xyz 1 0 0) (- 1) mem_init)
   \<and> fst (getRayIntersection (IsSphere (Sphere_new Point_Zero 1))
          (Point_xyz (- 5) 0 0) (Point_xyz 1 0 0) 10 mem_init)
   \<and> 0 \<le> intersect_dist (snd (getRayIntersection (IsSphere (Sphere_new Point_Zero 1))
          (Point_xyz (- 5) 0 0) (Point_xyz 1 0 0) 10 mem_init))
   \<and> intersect_dist (snd (getRayIntersection (IsSphere (Sphere_new Point_Zero 1))
          (Point_xyz (- 5) 0 0) (Point_xyz 1 0 0) 10 mem_init)) \<le> 10"
proof -
  let ?q = "getRayIntersection (IsSphere (Sphere_new Point_Zero 1))
          (Point_xyz (- 5) 0 0) (Point_xyz 1 0 0)"
  have neg: "(- 1 :: FloatingPoint) < 0" by simp
  have hit: "fst (?q 10 mem_init)"
    by (simp add: Sphere_getRayIntersection_def Sphere_new_def pt_defs Let_def)
  from neg getRayIntersection_hit_range [where max_dist = "- 1"]
  have miss: "\<not> fst (?q (- 1) mem_init)" by blast
  from hit getRayIntersection_hit_range [where max_dist = 10]
  have "0 \<le> intersect_dist (snd (?q 10 mem_init)) \<and> intersect_dist (snd (?q 10 mem_init)) \<le> 10"
    by blast
  with neg hit miss show ?thesis by blast
qed

subsection \<open>C3: the distance to a plane\<close>

text \<open>
  Claim C3, as stated: for every plane, also one whose normal is not of unit length, the
  distance is \<open>(normal \<cdot> point + d) / |normal|\<close> with \<open>d = - (normal \<cdot> center)\<close>. The
  code divides \<open>d\<close> alone. For the plane through \<open>(0,0,1)\<close> with normal \<open>(0,0,2)\<close> and
  the point \<open>(0,0,1)\<close>, which is on the plane, it returns 1, and the claimed
  expression is 0.
\<close>

theorem Plane_getDistanceToPoint_divides_offset_only:
  "Plane_getDistanceToPoint (Plane_new (Point_xyz 0 0 1) (Point_xyz 0 0 2)) (Point_xyz 0 0 1) = 1
   \<and> (dot (Point_xyz 0 0 2) (Point_xyz 0 0 1) + - dot (Point_xyz 0 0 2) (Point_xyz 0 0 1))
       / norm_pt (Point_xyz 0 0 2) = 0"
  by (simp add: Plane_getDistanceToPoint_def Plane_new_def pt_defs Let_def)

text \<open>
  Claim C3, amended: for every plane whose normal has unit length, as the class
  requires, and every query point, the distance query returns
  \<open>(normal \<cdot> point + d) / |normal|\<close> with \<open>d = - (normal \<cdot> center)\<close>.
\<close>

theorem Plane_getDistanceToPoint_unit_normal:
  "norm_pt (normal pl) = 1 \<Longrightarrow>
   Plane_getDistanceToPoint pl point
     = (dot (normal pl) point + - dot (normal pl) (center pl)) / norm_pt (normal pl)"
  by (simp add: Plane_getDistanceToPoint_def Let_def)

theorem Plane_getDistanceToPoint_unit_normal_witness:
  "norm_pt (normal (Plane_new (Point_xyz 0 0 1) (Point_xyz 0 0 1))) = 1
   \<and> Plane_getDistanceToPoint (Plane_new (Point_xyz 0 0 1) (Point_xyz 0 0 1)) (Point_xyz 2 3 5) = 4"
proof -
  have unit: "norm_pt (normal (Plane_new (Point_xyz 0 0 1) (Point_xyz 0 0 1))) = 1"
    by (simp add: Plane_new_def pt_defs)
  from Plane_getDistanceToPoint_unit_normal [OF unit, of "Point_xyz 2 3 5"] unit show ?thesis
    by (simp add: Plane_new_def pt_defs)
qed

subsection \<open>C4: the distance to a sphere\<close>

text \<open>
  Claim C4: for every sphere with center \<open>c\<close> and radius \<open>r\<close> and every point \<open>p\<close> the
  distance query returns \<open>|p - c| - r\<close>; at the center it returns \<open>- r\<close>; it is
  negative exactly when \<open>|p - c| < r\<close>, zero exactly when \<open>|p - c| = r\<close> and positive
  exactly when \<open>|p - c| > r\<close>.
\<close>

theorem Sphere_getDistanceToPoint_signed:
  "Sphere_getDistanceToPoint s p = norm_pt (Point_sub p (center s)) - radius s
   \<and> Sphere_getDistanceToPoint s (center s) = - radius s
   \<and> (Sphere_getDistanceToPoint s p < 0 \<longleftrightarrow> norm_pt (Point_sub p (center s)) < radius s)
   \<and> (Sphere_getDistanceToPoint s p = 0 \<longleftrightarrow> norm_pt (Point_sub p (center s)) = radius s)
   \<and> (0 < Sphere_getDistanceToPoint s p \<longleftrightarrow> radius s < norm_pt (Point_sub p (center s)))"
proof -
  have eq: "Sphere_getDistanceToPoint s q = norm_pt (Point_sub q (center s)) - radius s" for q
    by (simp add: Sphere_getDistanceToPoint_def Let_def norm_pt_sub_commute [of "center s"])
  have "norm_pt (Point_sub (center s) (center s)) = 0"
    by (simp add: pt_defs)
  with eq show ?thesis by auto
qed

subsection \<open>C5: the ray query on a sphere\<close>

text \<open>
  Claim C5: for every sphere and every ray (so also for every ray of unit direction),
  the sphere's ray query answers as the specification's formula does: nothing when the
  discriminant \<open>b\<^sup>2 - c\<close> is negative; otherwise with the near root
  \<open>d = - b - sqrt discriminant\<close>, nothing when \<open>d < 0\<close> or \<open>d > maxDistance\<close>, and else
  the point \<open>origin + d * direction\<close> at distance \<open>d\<close>. A reported distance is never
  beyond the far root. For the unit sphere at the origin and the ray from \<open>(-5,0,0)\<close>
  along \<open>(1,0,0)\<close>, with any maximum distance of at least 4, the hit is \<open>(-1,0,0)\<close> at
  distance 4, and the far root is 6.
\<close>

theorem Sphere_getRayIntersection_near_root:
  "intersectRay_result (Sphere_getRayIntersection s origin direction maxDistance mem)
     = spec_Sphere_intersectRay (center s) (radius s) origin direction maxDistance
   \<and> (intersectRay_result (Sphere_getRayIntersection s origin direction maxDistance mem)
        = Some (p, t) \<longrightarrow>
      t \<le> spec_Sphere_far_root (center s) (radius s) origin direction)
   \<and> (4 \<le> maxDistance \<longrightarrow>
      Sphere_getRayIntersection (Sphere_new Point_Zero 1)
          (Point_xyz (- 5) 0 0) (Point_xyz 1 0 0) maxDistance mem
        = (True, mem\<lparr>intersect_point := Point_xyz (- 1) 0 0, intersect_dist := 4\<rparr>))
   \<and> spec_Sphere_far_root Point_Zero 1 (Point_xyz (- 5) 0 0) (Point_xyz 1 0 0) = 6"
proof -
  have refines: "intersectRay_result (Sphere_getRayIntersection s origin direction maxDistance mem)
     = spec_Sphere_intersectRay (center s) (radius s) origin direction maxDistance"
    by (rule Sphere_refines)
  have near: "t \<le> spec_Sphere_far_root (center s) (radius s) origin direction"
    if "intersectRay_result (Sphere_getRayIntersection s origin direction maxDistance mem)
        = Some (p, t)"
    using that by (simp add: Sphere_refines Sphere_near_le_far)
  have example: "Sphere_getRayIntersection (Sphere_new Point_Zero 1)
          (Point_xyz (- 5) 0 0) (Point_xyz 1 0 0) maxDistance mem
        = (True, mem\<lparr>intersect_point := Point_xyz (- 1) 0 0, intersect_dist := 4\<rparr>)"
    if "4 \<le> maxDistance"
    using that by (simp add: Sphere_getRayIntersection_def Sphere_new_def pt_defs Let_def)
  have far: "spec_Sphere_far_root Point_Zero 1 (Point_xyz (- 5) 0 0) (Point_xyz 1 0 0) = 6"
    by (simp add: spec_Sphere_far_root_def spec_Sphere_discriminant_def norm_pt_squared
        Point_Zero_def Point_xyz_def Point_sub_def dot_def squaredNorm_def Let_def)
  from refines near example far show ?thesis by blast
qed

theorem Sphere_getRayIntersection_near_root_witness:
  "(4 :: FloatingPoint) \<le> 10
   \<and> intersectRay_result (Sphere_getRayIntersection (Sphere_new Point_Zero 1)
        (Point_xyz (- 5) 0 0) (Point_xyz 1 0 0) 10 mem_init) = Some (Point_xyz (- 1) 0 0, 4)
   \<and> 4 \<le> spec_Sphere_far_root (center (Sphere_new Point_Zero 1)) (radius (Sphere_new Point_Zero 1))
        (Point_xyz (- 5) 0 0) (Point_xyz 1 0 0)"
proof -
  note inst = Sphere_getRayIntersection_near_root
    [where s = "Sphere_new Point_Zero 1" and origin = "Point_xyz (- 5) 0 0"
       and direction = "Point_xyz 1 0 0" and maxDistance = 10 and mem = mem_init
       and p = "Point_xyz (- 1) 0 0" and t = 4]
  have range: "(4 :: FloatingPoint) \<le> 10" by simp
  with inst have "Sphere_getRayIntersection (Sphere_new Point_Zero 1)
        (Point_xyz (- 5) 0 0) (Point_xyz 1 0 0) 10 mem_init
      = (True, mem_init\<lparr>intersect_point := Point_xyz (- 1) 0 0, intersect_dist := 4\<rparr>)"
    by blast
  then have hit: "intersectRay_result (Sphere_getRayIntersection (Sphere_new Point_Zero 1)
        (Point_xyz (- 5) 0 0) (Point_xyz 1 0 0) 10 mem_init) = Some (Point_xyz (- 1) 0 0, 4)"
    by (simp add: intersectRay_result_def)
  with inst have "4 \<le> spec_Sphere_far_root (center (Sphere_new Point_Zero 1))
        (radius (Sphere_new Point_Zero 1)) (Point_xyz (- 5) 0 0) (Point_xyz 1 0 0)"
    by blast
  with range hit show ?thesis by blast
qed

subsection \<open>C6: the ray query on a plane\<close>

text \<open>
  Claim C6: for every plane and every ray, the plane's ray query answers as the
  specification's formula does: nothing when \<open>|direction \<cdot> normal| < 1e-6\<close>, wherever the
  origin lies; otherwise with
  \<open>d = ((center - origin) \<cdot> normal) / (direction \<cdot> normal)\<close>, nothing when \<open>d < 0\<close> or
  \<open>d > maxDistance\<close>, and else the point \<open>origin + d * direction\<close> at distance \<open>d\<close>. For
  the plane through the origin with normal \<open>(0,0,1)\<close> and the ray from \<open>(0,0,5)\<close> along
  \<open>(0,0,-1)\<close> with maximum distance 10 the hit is \<open>(0,0,0)\<close> at distance 5.
\<close>

theorem Plane_getRayIntersection_spec:
  "intersectRay_result (Plane_getRayIntersection pl origin direction maxDistance mem)
     = spec_Plane_intersectRay (center pl) (normal pl) origin direction maxDistance
   \<and> (\<bar>dot direction (normal pl)\<bar> < 0.000001 \<longrightarrow>
      Plane_getRayIntersection pl origin direction maxDistance mem = (False, mem))
   \<and> intersectRay_result (Plane_getRayIntersection (Plane_new Point_Zero (Point_xyz 0 0 1))
        (Point_xyz 0 0 5) (Point_xyz 0 0 (- 1)) 10 mem) = Some (Point_xyz 0 0 0, 5)"
proof -
  have refines: "intersectRay_result (Plane_getRayIntersection pl origin direction maxDistance mem)
     = spec_Plane_intersectRay (center pl) (normal pl) origin direction maxDistance"
    by (rule Plane_refines)
  have parallel: "Plane_getRayIntersection pl origin direction maxDistance mem = (False, mem)"
    if "\<bar>dot direction (normal pl)\<bar> < 0.000001"
    using that by (simp add: Plane_getRayIntersection_def)
  have example: "intersectRay_result
      (Plane_getRayIntersection (Plane_new Point_Zero (Point_xyz 0 0 1))
        (Point_xyz 0 0 5) (Point_xyz 0 0 (- 1)) 10 mem) = Some (Point_xyz 0 0 0, 5)"
    by (simp add: Plane_getRayIntersection_def intersectRay_result_def Plane_new_def
        pt_defs Let_def)
  from refines parallel example show ?thesis by blast
qed

theorem Plane_getRayIntersection_spec_witness:
  "\<bar>dot (Point_xyz 1 0 0) (normal (Plane_new Point_Zero (Point_xyz 0 0 1)))\<bar> < 0.000001
   \<and> dot (Point_sub (Point_xyz 2 3 0) Point_Zero) (Point_xyz 0 0 1) = 0
   \<and> Plane_getRayIntersection (Plane_new Point_Zero (Point_xyz 0 0 1))
        (Point_xyz 2 3 0) (Point_xyz 1 0 0) 10 mem_init = (False, mem_init)"
proof -
  have parallel:
    "\<bar>dot (Point_xyz 1 0 0) (normal (Plane_new Point_Zero (Point_xyz 0 0 1)))\<bar> < 0.000001"
    by (simp add: Plane_new_def pt_defs)
  have on_plane: "dot (Point_sub (Point_xyz 2 3 0) Point_Zero) (Point_xyz 0 0 1) = 0"
    by (simp add: pt_defs)
  from parallel Plane_getRayIntersection_spec
    [where pl = "Plane_new Point_Zero (Point_xyz 0 0 1)" and direction = "Point_xyz 1 0 0"
       and origin = "Point_xyz 2 3 0" and maxDistance = 10 and mem = mem_init]
  have "Plane_getRayIntersection (Plane_new Point_Zero (Point_xyz 0 0 1))
        (Point_xyz 2 3 0) (Point_xyz 1 0 0) 10 mem_init = (False, mem_init)"
    by blast
  with parallel on_plane show ?thesis by blast
qed

subsection \<open>C7: the distance to a cuboid\<close>

text \<open>
  Claim C7: for every cuboid and query point the distance query is the specification's
  formula: the norm of the three clamped terms, and, when that norm is below \<open>1e-6\<close>,
  the maximum of the three unclamped terms instead. That maximum is non-positive exactly
  when the point is inside the box or on its surface, and positive exactly when it is
  strictly outside. For the cuboid at the origin with half-extents \<open>(1,1,1)\<close> the
  distance of \<open>(3,0,0)\<close> is 2, and the distance of \<open>(0,0,0)\<close> is \<open>-1\<close>, from the second
  branch, the norm there being 0.
\<close>

theorem Cube_getDistanceToPoint_spec:
  "Cube_getDistanceToPoint cube p = spec_Cuboid_distanceTo (center cube) (size_cube cube) p
   \<and> (spec_Cuboid_fallback c h p \<le> 0 \<longleftrightarrow> Cuboid_contains c h p)
   \<and> (0 < spec_Cuboid_fallback c h p \<longleftrightarrow> \<not> Cuboid_contains c h p)
   \<and> Cube_getDistanceToPoint (Cube_new Point_Zero (Point_xyz 1 1 1)) (Point_xyz 3 0 0) = 2
   \<and> Cube_getDistanceToPoint (Cube_new Point_Zero (Point_xyz 1 1 1)) (Point_xyz 0 0 0) = - 1
   \<and> norm_pt (spec_Cuboid_clamped Point_Zero (Point_xyz 1 1 1) (Point_xyz 0 0 0)) = 0"
proof -
  have outside:
    "Cube_getDistanceToPoint (Cube_new Point_Zero (Point_xyz 1 1 1)) (Point_xyz 3 0 0) = 2"
    by (simp add: Cube_getDistanceToPoint_def Cube_new_def pt_defs Let_def)
  have inside:
    "Cube_getDistanceToPoint (Cube_new Point_Zero (Point_xyz 1 1 1)) (Point_xyz 0 0 0) = - 1"
    by (simp add: Cube_getDistanceToPoint_def Cube_new_def pt_defs Let_def)
  have branch: "norm_pt (spec_Cuboid_clamped Point_Zero (Point_xyz 1 1 1) (Point_xyz 0 0 0)) = 0"
    by (simp add: spec_Cuboid_clamped_def clamped_term_def pt_defs)
  from Cube_refines [of cube p] fallback_nonpos [of c h p] fallback_pos [of c h p]
    outside inside branch
  show ?thesis by blast
qed

subsection \<open>C8: queries without side effects\<close>

text \<open>
  Claim C8 says that every query is a pure function. The plane's ray query is not: for
  the plane through the origin with normal \<open>(0,0,1)\<close> and the ray from \<open>(0,0,5)\<close> along
  \<open>(0,0,-1)\<close> with maximum distance 10, standard output is empty before the call and
  holds \<^verbatim>\<open>d: \<close>, the number 5 and a line end after it.
\<close>

theorem Plane_getRayIntersection_prints:
  "cout mem_init = []
   \<and> cout (snd (getRayIntersection (IsPlane (Plane_new Point_Zero (Point_xyz 0 0 1)))
        (Point_xyz 0 0 5) (Point_xyz 0 0 (- 1)) 10 mem_init)) = [Str ''d: '', Num 5, Endl]"
  by (simp add: Plane_getRayIntersection_def Plane_new_def mem_init_def pt_defs Let_def)

subsection \<open>C9: the output locations after a miss\<close>

text \<open>
  Claim C9: for every shape variant and every input, when the ray query returns
  \<^verbatim>\<open>false\<close>, the two output locations hold what they held before the call.
\<close>

theorem getRayIntersection_miss_keeps_outputs:
  "\<not> fst (getRayIntersection obj ray_origin ray_direction max_dist mem) \<Longrightarrow>
   intersect_point (snd (getRayIntersection obj ray_origin ray_direction max_dist mem))
     = intersect_point mem
   \<and> intersect_dist (snd (getRayIntersection obj ray_origin ray_direction max_dist mem))
     = intersect_dist mem"
  by (cases obj)
    (simp_all add: Object_getRayIntersection_def Sphere_getRayIntersection_def
      Plane_getRayIntersection_def Let_def split: if_splits)

theorem getRayIntersection_miss_keeps_outputs_witness:
  "\<not> fst (getRayIntersection (IsPlane (Plane_new Point_Zero (Point_xyz 0 0 1)))
        (Point_xyz 0 0 5) (Point_xyz 0 0 1) 10 mem_init)
   \<and> intersect_point (snd (getRayIntersection (IsPlane (Plane_new Point_Zero (Point_xyz 0 0 1)))
        (Point_xyz 0 0 5) (Point_xyz 0 0 1) 10 mem_init)) = Point_xyz 7 7 7
   \<and> intersect_dist (snd (getRayIntersection (IsPlane (Plane_new Point_Zero (Point_xyz 0 0 1)))
        (Point_xyz 0 0 5) (Point_xyz 0 0 1) 10 mem_init)) = - 1"
proof -
  have miss: "\<not> fst (getRayIntersection (IsPlane (Plane_new Point_Zero (Point_xyz 0 0 1)))
        (Point_xyz 0 0 5) (Point_xyz 0 0 1) 10 mem_init)"
    by (simp add: Plane_getRayIntersection_def Plane_new_def pt_defs Let_def)
  from getRayIntersection_miss_keeps_outputs [OF miss] miss show ?thesis
    by (simp add: mem_init_def)
qed

subsection \<open>C10: the sign of a sphere's radius\<close>

text \<open>
  Claim C10: for every center \<open>c\<close>, radius \<open>r\<close> and ray, the spheres constructed with
  radius \<open>r\<close> and with radius \<open>- r\<close> give the same result of the ray query (the same
  \<^verbatim>\<open>bool\<close> and the same memory afterwards), while their distance queries agree at a
  point only when \<open>r = 0\<close>.
\<close>

theorem Sphere_getRayIntersection_radius_sign:
  "Sphere_getRayIntersection (Sphere_new_color c r col) ray_origin ray_direction max_dist mem
     = Sphere_getRayIntersection (Sphere_new_color c (- r) col)
         ray_origin ray_direction max_dist mem
   \<and> Sphere_getRayIntersection (Sphere_new c r) ray_origin ray_direction max_dist mem
     = Sphere_getRayIntersection (Sphere_new c (- r)) ray_origin ray_direction max_dist mem
   \<and> (Sphere_getDistanceToPoint (Sphere_new_color c r col) p
        = Sphere_getDistanceToPoint (Sphere_new_color c (- r) col) p \<longleftrightarrow> r = 0)
   \<and> (Sphere_getDistanceToPoint (Sphere_new c r) p
        = Sphere_getDistanceToPoint (Sphere_new c (- r)) p \<longleftrightarrow> r = 0)"
  by (simp add: Sphere_getRayIntersection_def Sphere_getDistanceToPoint_def
      Sphere_new_color_def Sphere_new_def Let_def)

end
